theory Spec2Isabelle
  imports Complex_Main "HOL-Library.AList"
begin

section \<open>Go values, panics and errors\<close>

text \<open>
  The middleware of \<^verbatim>\<open>middleware.go\<close> is embedded function by function. A Go
  function that can panic returns \<open>panic + 'a\<close> (\<open>Inl\<close> the panic); a Go \<open>error\<close> is
  its message; a Go map is an association list read with \<open>map_of\<close> and written with
  \<open>AList.update\<close>, and ranging over it visits the list in order (Go fixes no order, so
  the theorems below hold for every order of the list).
\<close>

type_synonym go_error = string

datatype panic =
    NilDereference
  | TypeAssertion
  | PanicError go_error
  | PanicString string

text \<open>
  A value of a claim map (\<^verbatim>\<open>map[string]interface{}\<close>): a string, a number (the
  int64 the middleware stores, the float64 a JSON payload is read into; kept by value),
  or anything else JSON can hold.
\<close>

datatype go_value = GoString string | GoNumber rat | GoOther

type_synonym go_map = "(string \<times> go_value) list"

definition HasPrefix :: "string \<Rightarrow> string \<Rightarrow> bool" where
  \<comment> \<open>\<^verbatim>\<open>strings.HasPrefix(s, prefix)\<close>\<close>
  "HasPrefix s pre = (take (length pre) s = pre)"

fun Split :: "string \<Rightarrow> char \<Rightarrow> string list" where
  \<comment> \<open>\<^verbatim>\<open>strings.Split(s, sep)\<close> for a separator of one byte\<close>
  "Split [] sep = [[]]"
| "Split (c # cs) sep =
     (if c = sep then [] # Split cs sep
      else (case Split cs sep of [] \<Rightarrow> [[c]] | p # ps \<Rightarrow> (c # p) # ps))"

definition int64 :: "rat \<Rightarrow> int" where
  \<comment> \<open>the Go conversion \<^verbatim>\<open>int64(f)\<close> of a float64: the fraction is dropped; a value
      outside the 64 bits is left to the implementation by the Go specification, and
      amd64 gives the least int64\<close>
  "int64 f =
     (let t = (if f < 0 then - \<lfloor>- f\<rfloor> else \<lfloor>f\<rfloor>)
      in if - (2 ^ 63) \<le> t \<and> t < 2 ^ 63 then t else - (2 ^ 63))"

section \<open>The data of the program\<close>

record url =
  Scheme :: string
  Host :: string
  Path :: string
  RawQuery :: string
  Fragment :: string

text \<open>\<^verbatim>\<open>http.Header\<close> and \<^verbatim>\<open>url.Values\<close> are maps from a name to a list of values.\<close>

type_synonym multimap = "(string \<times> string list) list"

record request =
  URL :: url
  Header :: multimap
  Form :: multimap

record cookie =
  Cookie_Name :: string
  Cookie_Value :: string
  Cookie_MaxAge :: int
  Cookie_HttpOnly :: bool
  Cookie_Path :: string

text \<open>
  What a handler does to its \<^verbatim>\<open>http.ResponseWriter\<close>, one entry per call of the
  source, in the order of the calls: \<^verbatim>\<open>http.Error(w, text, code)\<close>,
  \<^verbatim>\<open>http.SetCookie(w, c)\<close>, \<^verbatim>\<open>http.Redirect(w, r, url, code)\<close>.
\<close>

datatype effect =
    HttpError string int
  | SetCookie cookie
  | Redirect string int

definition StatusFound :: int where "StatusFound = 302"
definition StatusForbidden :: int where "StatusForbidden = 403"
definition StatusInternalServerError :: int where "StatusInternalServerError = 500"

definition StatusText :: "int \<Rightarrow> string" where
  \<comment> \<open>\<^verbatim>\<open>http.StatusText\<close> at the codes the middleware uses\<close>
  "StatusText code =
     (if code = 302 then ''Found''
      else if code = 403 then ''Forbidden''
      else if code = 500 then ''Internal Server Error''
      else [])"

text \<open>
  Modelled from the spec: the attribute set the assertion verifier returns
  (\<^verbatim>\<open>AssertionAttributes\<close>, declared in a file of the repository that is not among
  the sources), a list of attributes read by their friendly name and their string value.
\<close>

record AssertionAttribute =
  FriendlyName :: string
  Name :: string
  Value :: string

type_synonym AssertionAttributes = "AssertionAttribute list"

text \<open>The fields of \<^verbatim>\<open>ServiceProvider\<close> that the middleware reads.\<close>

record service_provider =
  Key :: string
  MetadataURL :: string
  AcsURL :: string

section \<open>The signed token codec\<close>

record signing_method =
  Alg :: string
  Verify :: "string \<Rightarrow> string \<Rightarrow> string \<Rightarrow> bool"
  Sign :: "string \<Rightarrow> string \<Rightarrow> go_error + string"

record token =
  Raw :: string
  Method :: "signing_method option"
  TokenHeader :: go_map
  Claims :: go_map
  Signature :: string
  Valid :: bool

datatype ValidationError =
    ValidationErrorMalformed
  | ValidationErrorUnverifiable
  | ValidationErrorFlags bool bool bool

text \<open>
  What the program takes from outside \<^verbatim>\<open>middleware.go\<close>: the Go standard library
  (\<^verbatim>\<open>pem.Decode\<close>, \<^verbatim>\<open>url.Parse\<close>, \<^verbatim>\<open>URL.String\<close>, the canonical form of a
  header name that \<^verbatim>\<open>Header.Set\<close> applies, the cookies \<^verbatim>\<open>Request.Cookie\<close> reads
  from the headers, the clock), the primitives of the token package (its table of signing
  methods, the encoding of a JSON segment and its decoding, its clock), and the assertion
  verifier's \<^verbatim>\<open>MakeRedirectAuthenticationRequest\<close>. They are parameters: every theorem
  holds for all of them, under the hypotheses it states.
  \<^item> \<open>pem_Decode\<close> gives the bytes of the first PEM block, \<open>None\<close> for the nil block;
  \<^item> \<open>url_Parse\<close> gives \<open>None\<close> for the nil URL of a parse error;
  \<^item> \<open>readCookies h name\<close> lists the values of the cookies called \<open>name\<close>;
  \<^item> \<open>Verify m signingString signature key\<close> holds when the method returns no error;
  \<^item> \<open>timeNow\<close> is the clock of the middleware in nanoseconds, \<open>TimeFunc\<close> the
    token package's in seconds.
\<close>

record externals =
  pem_Decode :: "string \<Rightarrow> string option"
  url_Parse :: "string \<Rightarrow> url option"
  URL_String :: "url \<Rightarrow> string"
  CanonicalHeaderKey :: "string \<Rightarrow> string"
  readCookies :: "multimap \<Rightarrow> string \<Rightarrow> string list"
  GetSigningMethod :: "string \<Rightarrow> signing_method option"
  MarshalSegment :: "go_map \<Rightarrow> go_error + string"
  UnmarshalSegment :: "string \<Rightarrow> go_error + go_map"
  TimeFunc :: int
  timeNow :: int
  MakeRedirectAuthenticationRequest :: "service_provider \<Rightarrow> string \<Rightarrow> go_error + url"

text \<open>
  Modelled from the spec: the signed token codec of section 4.1 (\<open>encode\<close>,
  \<open>decode_and_verify\<close>), which the source takes from the imported package
  \<^verbatim>\<open>github.com/dgrijalva/jwt-go\<close>; its code is not among the sources. The calls
  are the source's: \<^verbatim>\<open>jwt.New(method)\<close>, \<^verbatim>\<open>token.SignedString(key)\<close>,
  \<^verbatim>\<open>jwt.Parse(tokenString, keyFunc)\<close>, the fields \<^verbatim>\<open>Claims\<close> and
  \<^verbatim>\<open>Valid\<close>. The steps are the spec's: a token is a header and a claim set,
  serialized, with a signature over both; decoding splits the three segments, reads the
  header and the claims, recomputes the check of the signature over the raw payload,
  and is invalid on a mismatch, on an algorithm that is not available and on an
  \<open>exp\<close> in the past (likewise an \<open>nbf\<close> in the future). The source hands
  \<open>Parse\<close> a key callback and no algorithm, so the method that verifies is the one
  the token's own \<open>alg\<close> header names in the table of signing methods.
\<close>

definition New :: "signing_method option \<Rightarrow> panic + token" where
  "New method =
     (case method of
        None \<Rightarrow> Inl NilDereference
      | Some m \<Rightarrow>
          Inr \<lparr>Raw = [], Method = Some m,
               TokenHeader = [(''typ'', GoString ''JWT''), (''alg'', GoString (Alg m))],
               Claims = [], Signature = [], Valid = False\<rparr>)"

definition SigningString :: "externals \<Rightarrow> token \<Rightarrow> go_error + string" where
  "SigningString ext t =
     (case MarshalSegment ext (TokenHeader t) of
        Inl e \<Rightarrow> Inl e
      | Inr h \<Rightarrow>
          (case MarshalSegment ext (Claims t) of
             Inl e \<Rightarrow> Inl e
           | Inr c \<Rightarrow> Inr (h @ ''.'' @ c)))"

definition SignedString :: "externals \<Rightarrow> token \<Rightarrow> string \<Rightarrow> panic + (go_error + string)" where
  "SignedString ext t key =
     (case SigningString ext t of
        Inl e \<Rightarrow> Inr (Inl e)
      | Inr sstr \<Rightarrow>
          (case Method t of
             None \<Rightarrow> Inl NilDereference
           | Some m \<Rightarrow>
               (case Sign m sstr key of
                  Inl e \<Rightarrow> Inr (Inl e)
                | Inr sig \<Rightarrow> Inr (Inr (sstr @ ''.'' @ sig)))))"

type_synonym Keyfunc = "token \<Rightarrow> panic + (string \<times> go_error option)"

definition Parse ::
  "externals \<Rightarrow> string \<Rightarrow> Keyfunc \<Rightarrow> panic + (token option \<times> ValidationError option)" where
  "Parse ext tokenString keyFunc =
     (case Split tokenString CHR ''.'' of
        [p0, p1, p2] \<Rightarrow>
          (let t0 = \<lparr>Raw = tokenString, Method = None, TokenHeader = [], Claims = [],
                     Signature = [], Valid = False\<rparr> in
           case UnmarshalSegment ext p0 of
             Inl e \<Rightarrow> Inr (Some t0, Some ValidationErrorMalformed)
           | Inr hdr \<Rightarrow>
               (let t1 = t0\<lparr>TokenHeader := hdr\<rparr> in
                case UnmarshalSegment ext p1 of
                  Inl e \<Rightarrow> Inr (Some t1, Some ValidationErrorMalformed)
                | Inr clm \<Rightarrow>
                    (let t2 = t1\<lparr>Claims := clm\<rparr> in
                     case map_of hdr ''alg'' of
                       Some (GoString alg) \<Rightarrow>
                         (case GetSigningMethod ext alg of
                            None \<Rightarrow> Inr (Some t2, Some ValidationErrorUnverifiable)
                          | Some m \<Rightarrow>
                              (let t3 = t2\<lparr>Method := Some m\<rparr> in
                               case keyFunc t3 of
                                 Inl p \<Rightarrow> Inl p
                               | Inr (key, Some e) \<Rightarrow>
                                   Inr (Some t3, Some ValidationErrorUnverifiable)
                               | Inr (key, None) \<Rightarrow>
                                   (let now = TimeFunc ext;
                                        expired =
                                          (case map_of clm ''exp'' of
                                             Some (GoNumber e) \<Rightarrow> now > int64 e
                                           | _ \<Rightarrow> False);
                                        notyet =
                                          (case map_of clm ''nbf'' of
                                             Some (GoNumber n) \<Rightarrow> now < int64 n
                                           | _ \<Rightarrow> False);
                                        badsig = (\<not> Verify m (p0 @ ''.'' @ p1) p2 key)
                                    in if expired then
                                         Inr (Some t3, Some (ValidationErrorFlags True notyet badsig))
                                       else if notyet then
                                         Inr (Some t3, Some (ValidationErrorFlags False True badsig))
                                       else if badsig then
                                         Inr (Some t3, Some (ValidationErrorFlags False False True))
                                       else Inr (Some (t3\<lparr>Valid := True\<rparr>), None))))
                     | _ \<Rightarrow> Inr (Some t2, Some ValidationErrorUnverifiable))))
      | _ \<Rightarrow> Inr (None, Some ValidationErrorMalformed))"

section \<open>The middleware\<close>

record middleware =
  ServiceProvider :: service_provider
  IsAuthorizedFunc :: "(request \<Rightarrow> panic + (bool \<times> request)) option"

definition cookieMaxAge :: int where
  \<comment> \<open>\<^verbatim>\<open>const cookieMaxAge = time.Hour\<close>, a duration in nanoseconds\<close>
  "cookieMaxAge = 60 * 60 * 1000000000"

definition cookieName :: string where
  "cookieName = ''token''"

definition Seconds :: "int \<Rightarrow> int" where
  \<comment> \<open>\<^verbatim>\<open>int(d.Seconds())\<close>: the whole seconds of a duration that is not negative\<close>
  "Seconds d = d div 1000000000"

definition Unix :: "int \<Rightarrow> int" where
  \<comment> \<open>\<^verbatim>\<open>t.Unix()\<close> of an instant given in nanoseconds\<close>
  "Unix t = t div 1000000000"

definition Get :: "multimap \<Rightarrow> string \<Rightarrow> string" where
  \<comment> \<open>\<^verbatim>\<open>url.Values.Get\<close>: the first value of the key, or the empty string\<close>
  "Get v k = (case map_of v k of Some (x # xs) \<Rightarrow> x | _ \<Rightarrow> [])"

definition Header_Set :: "externals \<Rightarrow> multimap \<Rightarrow> string \<Rightarrow> string \<Rightarrow> multimap" where
  \<comment> \<open>\<^verbatim>\<open>h.Set(key, value)\<close>: the canonical key holds the single value\<close>
  "Header_Set ext h k v = AList.update (CanonicalHeaderKey ext k) [v] h"

definition secretKey :: "externals \<Rightarrow> middleware \<Rightarrow> Keyfunc" where
  \<comment> \<open>the key callback of both calls of \<^verbatim>\<open>jwt.Parse\<close>: \<^verbatim>\<open>secretBlock.Bytes, nil\<close>,
      whatever the token is; a nil block panics\<close>
  "secretKey ext m t =
     (case pem_Decode ext (Key (ServiceProvider m)) of
        None \<Rightarrow> Inl NilDereference
      | Some bytes \<Rightarrow> Inr (bytes, None))"

definition setClaimHeaders :: "externals \<Rightarrow> go_map \<Rightarrow> multimap \<Rightarrow> multimap" where
  \<comment> \<open>the loop over \<^verbatim>\<open>token.Claims\<close> of \<^verbatim>\<open>DefaultIsAuthorized\<close>\<close>
  "setClaimHeaders ext claims h =
     fold (\<lambda>(claimName, claimValue) h'.
             (case claimValue of
                GoString c \<Rightarrow> Header_Set ext h' (''X-Saml-'' @ claimName) c
              | _ \<Rightarrow> h'))
          claims h"

definition DefaultIsAuthorized ::
  "externals \<Rightarrow> middleware \<Rightarrow> request \<Rightarrow> panic + (bool \<times> request)" where
  "DefaultIsAuthorized ext m r =
     (case readCookies ext (Header r) cookieName of
        [] \<Rightarrow> Inr (False, r)
      | cookieValue # _ \<Rightarrow>
          (case Parse ext cookieValue (secretKey ext m) of
             Inl p \<Rightarrow> Inl p
           | Inr (tok, Some err) \<Rightarrow> Inr (False, r)
           | Inr (None, None) \<Rightarrow> Inl NilDereference
           | Inr (Some t, None) \<Rightarrow>
               if \<not> Valid t then Inr (False, r)
               else if list_ex (\<lambda>headerName. HasPrefix headerName ''X-Saml'')
                         (map fst (Header r))
               then Inl (PanicString
                      ''X-Saml-* headers should not exist when this function is called'')
               else Inr (True, r\<lparr>Header := setClaimHeaders ext (Claims t) (Header r)\<rparr>)))"

definition RequireAccountMiddleware ::
  "externals \<Rightarrow> middleware \<Rightarrow> (request \<Rightarrow> panic + effect list) \<Rightarrow> request
     \<Rightarrow> panic + effect list" where
  "RequireAccountMiddleware ext m handler r =
     (let isAuthorized =
            (case IsAuthorizedFunc m of None \<Rightarrow> DefaultIsAuthorized ext m | Some f \<Rightarrow> f)
      in case isAuthorized r of
        Inl p \<Rightarrow> Inl p
      | Inr (True, r') \<Rightarrow> handler r'
      | Inr (False, r') \<Rightarrow>
          (case New (GetSigningMethod ext ''HS256'') of
             Inl p \<Rightarrow> Inl p
           | Inr t \<Rightarrow>
               (let relayState =
                      t\<lparr>Claims := AList.update ''uri'' (GoString (URL_String ext (URL r')))
                                     (Claims t)\<rparr>
                in case pem_Decode ext (Key (ServiceProvider m)) of
                  None \<Rightarrow> Inl NilDereference
                | Some secret \<Rightarrow>
                    (case SignedString ext relayState secret of
                       Inl p \<Rightarrow> Inl p
                     | Inr (Inl err) \<Rightarrow> Inl (PanicError err)
                     | Inr (Inr signedRelayState) \<Rightarrow>
                         (case MakeRedirectAuthenticationRequest ext (ServiceProvider m)
                                 signedRelayState of
                            Inl err \<Rightarrow> Inr [HttpError err StatusInternalServerError]
                          | Inr redirectURL \<Rightarrow>
                              (case url_Parse ext (AcsURL (ServiceProvider m)) of
                                 None \<Rightarrow> Inl NilDereference
                               | Some acsURL \<Rightarrow>
                                   if Path (URL r') = Path acsURL then
                                     Inl (PanicString
                                       ''don't wrap ServiceProviderMiddleware with RequireAccountMiddleware'')
                                   else
                                     Inr [Redirect (URL_String ext redirectURL)
                                            StatusFound]))))))"

definition sessionClaims :: "externals \<Rightarrow> AssertionAttributes \<Rightarrow> go_map \<Rightarrow> go_map" where
  \<comment> \<open>lines 141 to 144 of \<^verbatim>\<open>DefaultAuthorizeFunc\<close>: one claim for each attribute, then \<open>exp\<close>\<close>
  "sessionClaims ext assertionAttributes claims =
     AList.update ''exp'' (GoNumber (of_int (Unix (timeNow ext + cookieMaxAge))))
       (fold (\<lambda>attr c. AList.update (FriendlyName attr) (GoString (Value attr)) c)
          assertionAttributes claims)"

definition sessionCookie :: "string \<Rightarrow> cookie" where
  \<comment> \<open>the cookie that \<^verbatim>\<open>http.SetCookie\<close> is given in \<^verbatim>\<open>DefaultAuthorizeFunc\<close>\<close>
  "sessionCookie signedToken =
     \<lparr>Cookie_Name = cookieName, Cookie_Value = signedToken,
      Cookie_MaxAge = Seconds cookieMaxAge, Cookie_HttpOnly = False, Cookie_Path = ''/''\<rparr>"

definition DefaultAuthorizeFunc ::
  "externals \<Rightarrow> middleware \<Rightarrow> request \<Rightarrow> AssertionAttributes \<Rightarrow> panic + effect list" where
  "DefaultAuthorizeFunc ext m r assertionAttributes =
     (let forbidden = Inr [HttpError (StatusText StatusForbidden) StatusForbidden];
          issue = (\<lambda>redirectURI.
            (case New (GetSigningMethod ext ''HS256'') of
               Inl p \<Rightarrow> Inl p
             | Inr t \<Rightarrow>
                 (let tok = t\<lparr>Claims := sessionClaims ext assertionAttributes (Claims t)\<rparr>
                  in case pem_Decode ext (Key (ServiceProvider m)) of
                    None \<Rightarrow> Inl NilDereference
                  | Some secret \<Rightarrow>
                      (case SignedString ext tok secret of
                         Inl p \<Rightarrow> Inl p
                       | Inr (Inl err) \<Rightarrow> Inl (PanicError err)
                       | Inr (Inr signedToken) \<Rightarrow>
                           Inr [SetCookie (sessionCookie signedToken),
                                Redirect redirectURI StatusFound]))))
      in if Get (Form r) ''RelayState'' \<noteq> [] then
           (case Parse ext (Get (Form r) ''RelayState'') (secretKey ext m) of
              Inl p \<Rightarrow> Inl p
            | Inr (tok, Some err) \<Rightarrow> forbidden
            | Inr (None, None) \<Rightarrow> Inl NilDereference
            | Inr (Some relayState, None) \<Rightarrow>
                if \<not> Valid relayState then forbidden
                else (case map_of (Claims relayState) ''uri'' of
                        Some (GoString uri) \<Rightarrow> issue uri
                      | _ \<Rightarrow> Inl TypeAssertion))
         else issue ''/'')"

section \<open>Names used in the statements\<close>

definition claimHeaderName :: "externals \<Rightarrow> string \<Rightarrow> string" where
  \<comment> \<open>the key under which \<^verbatim>\<open>r.Header.Set(fmt.Sprintf("X-Saml-%s", claimName), c)\<close> stores\<close>
  "claimHeaderName ext claimName = CanonicalHeaderKey ext (''X-Saml-'' @ claimName)"

fun stringClaims :: "go_map \<Rightarrow> (string \<times> string) list" where
  \<comment> \<open>the claims whose value passes the type assertion \<^verbatim>\<open>claimValue.(string)\<close>\<close>
  "stringClaims [] = []"
| "stringClaims ((n, GoString c) # cs) = (n, c) # stringClaims cs"
| "stringClaims ((n, v) # cs) = stringClaims cs"







section \<open>An instance of the parameters\<close>

text \<open>
  The examples below run the definitions on this instance: keys in a block marked
  \<open>PEM:\<close>, URLs of a path and a query, header names made canonical as Go does for
  names of letters, digits and dashes, one cookie to a \<open>Cookie\<close> line, two signing
  methods in the table, a check value in place of the HMAC, and a table of segments in
  place of base64 and JSON.
\<close>

definition demoUpper :: "char \<Rightarrow> char" where
  "demoUpper c =
     (case map_of (zip ''abcdefghijklmnopqrstuvwxyz'' ''ABCDEFGHIJKLMNOPQRSTUVWXYZ'') c of
        Some u \<Rightarrow> u | None \<Rightarrow> c)"

definition demoLower :: "char \<Rightarrow> char" where
  "demoLower c =
     (case map_of (zip ''ABCDEFGHIJKLMNOPQRSTUVWXYZ'' ''abcdefghijklmnopqrstuvwxyz'') c of
        Some l \<Rightarrow> l | None \<Rightarrow> c)"

fun demoCanonical :: "bool \<Rightarrow> string \<Rightarrow> string" where
  "demoCanonical up [] = []"
| "demoCanonical up (c # cs) =
     (if up then demoUpper c else demoLower c) # demoCanonical (c = CHR ''-'') cs"

definition demoCheck :: "string \<Rightarrow> string \<Rightarrow> string \<Rightarrow> string" where
  "demoCheck alg key sstr = alg @ ''-'' @ key @ ''-'' @ filter (\<lambda>c. c \<noteq> CHR ''.'') sstr"

definition demoMethod :: "string \<Rightarrow> signing_method" where
  "demoMethod alg =
     \<lparr>Alg = alg,
      Verify = (\<lambda>sstr sig key. sig = demoCheck alg key sstr),
      Sign = (\<lambda>sstr key. Inr (demoCheck alg key sstr))\<rparr>"

definition demoSegments :: "(string \<times> go_map) list" where
  "demoSegments =
     [(''h256'', [(''typ'', GoString ''JWT''), (''alg'', GoString ''HS256'')]),
      (''h384'', [(''typ'', GoString ''JWT''), (''alg'', GoString ''HS384'')]),
      (''session'', [(''uid'', GoString ''alice@example.com''), (''exp'', GoNumber 4600)]),
      (''relay'', [(''uri'', GoString ''/protected?x=1'')]),
      (''relayacs'', [(''uri'', GoString ''/saml/acs'')]),
      (''nouri'', [(''sub'', GoString ''alice'')]),
      (''old'', [(''exp'', GoNumber 0)]),
      (''early'', [(''nbf'', GoNumber 5000)]),
      (''twouids'', [(''uid'', GoString ''alice@example.com''),
                     (''Uid'', GoString ''mallory@evil.example'')])]"

definition demo :: externals where
  "demo =
     \<lparr>pem_Decode = (\<lambda>s. if HasPrefix s ''PEM:'' then Some (drop 4 s) else None),
      url_Parse = (\<lambda>s. Some \<lparr>Scheme = [], Host = [],
                              Path = takeWhile (\<lambda>c. c \<noteq> CHR ''?'') s,
                              RawQuery = drop 1 (dropWhile (\<lambda>c. c \<noteq> CHR ''?'') s),
                              Fragment = []\<rparr>),
      URL_String = (\<lambda>u. (if Scheme u = [] then [] else Scheme u @ ''://'' @ Host u)
                          @ Path u @ (if RawQuery u = [] then [] else ''?'' @ RawQuery u)),
      CanonicalHeaderKey = demoCanonical True,
      readCookies = (\<lambda>h name.
         map (drop (length name + 1))
           (filter (\<lambda>v. HasPrefix v (name @ ''=''))
              (case map_of h ''Cookie'' of None \<Rightarrow> [] | Some vs \<Rightarrow> vs))),
      GetSigningMethod = (\<lambda>alg. if alg = ''HS256'' \<or> alg = ''HS384''
                                 then Some (demoMethod alg) else None),
      MarshalSegment = (\<lambda>m. case map_of (map (\<lambda>(s, m'). (m', s)) demoSegments) m of
                               None \<Rightarrow> Inl ''json: unsupported value''
                             | Some s \<Rightarrow> Inr s),
      UnmarshalSegment = (\<lambda>s. case map_of demoSegments s of
                                 None \<Rightarrow> Inl ''illegal base64 data''
                               | Some m \<Rightarrow> Inr m),
      TimeFunc = 1000,
      timeNow = 1000 * 1000000000,
      MakeRedirectAuthenticationRequest = (\<lambda>sp relayState.
         Inr \<lparr>Scheme = ''https'', Host = ''idp.example.com'', Path = ''/sso'',
              RawQuery = ''RelayState='' @ relayState, Fragment = []\<rparr>)\<rparr>"

definition demoMiddleware :: middleware where
  "demoMiddleware =
     \<lparr>ServiceProvider = \<lparr>Key = ''PEM:secret'', MetadataURL = ''/saml/metadata'',
                          AcsURL = ''/saml/acs''\<rparr>,
      IsAuthorizedFunc = None\<rparr>"

definition demoRequest :: "string \<Rightarrow> string \<Rightarrow> multimap \<Rightarrow> multimap \<Rightarrow> request" where
  "demoRequest path query header form =
     \<lparr>URL = \<lparr>Scheme = [], Host = [], Path = path, RawQuery = query, Fragment = []\<rparr>,
      Header = header, Form = form\<rparr>"

definition demoAttrs :: AssertionAttributes where
  "demoAttrs = [\<lparr>FriendlyName = ''uid'', Name = ''urn:oid:0.9.2342.19200300.100.1.1'', Value = ''alice@example.com''\<rparr>]"



section \<open>Lemmas\<close>

subsection \<open>The loop over the claims\<close>

lemma setClaimHeaders_snoc:
  "setClaimHeaders ext (cs @ [(n, v)]) h =
     (case v of GoString c \<Rightarrow> Header_Set ext (setClaimHeaders ext cs h) (''X-Saml-'' @ n) c
      | _ \<Rightarrow> setClaimHeaders ext cs h)"
  by (cases v) (simp_all add: setClaimHeaders_def)

lemma stringClaims_append: "stringClaims (xs @ ys) = stringClaims xs @ stringClaims ys"
  by (induction xs rule: stringClaims.induct) auto

lemma in_stringClaims: "(n, c) \<in> set (stringClaims cs) \<longleftrightarrow> (n, GoString c) \<in> set cs"
  by (induction cs rule: stringClaims.induct) auto

lemma map_of_Header_Set:
  "map_of (Header_Set ext h k v) k' =
     (if k' = CanonicalHeaderKey ext k then Some [v] else map_of h k')"
  by (simp add: Header_Set_def update_conv')

lemma setClaimHeaders_other:
  "\<forall>n c. (n, GoString c) \<in> set cs \<longrightarrow> claimHeaderName ext n \<noteq> k \<Longrightarrow>
   map_of (setClaimHeaders ext cs h) k = map_of h k"
proof (induction cs rule: rev_induct)
  case Nil
  then show ?case by (simp add: setClaimHeaders_def)
next
  case (snoc x cs)
  obtain n v where x: "x = (n, v)" by (cases x)
  from snoc.prems have rest: "\<forall>n c. (n, GoString c) \<in> set cs \<longrightarrow> claimHeaderName ext n \<noteq> k"
    by simp
  show ?case
  proof (cases v)
    case (GoString c)
    with snoc.prems x have "claimHeaderName ext n \<noteq> k" by simp
    with snoc.IH [OF rest] GoString x show ?thesis
      by (auto simp: setClaimHeaders_snoc map_of_Header_Set claimHeaderName_def)
  qed (use snoc.IH [OF rest] x in \<open>simp_all add: setClaimHeaders_snoc\<close>)
qed

lemma setClaimHeaders_some:
  "(n, GoString c) \<in> set cs \<Longrightarrow>
   \<exists>n' c'. (n', GoString c') \<in> set cs \<and> claimHeaderName ext n' = claimHeaderName ext n
      \<and> map_of (setClaimHeaders ext cs h) (claimHeaderName ext n) = Some [c']"
proof (induction cs rule: rev_induct)
  case Nil
  then show ?case by simp
next
  case (snoc x cs)
  obtain m v where x: "x = (m, v)" by (cases x)
  show ?case
  proof (cases "\<exists>c'. v = GoString c' \<and> claimHeaderName ext m = claimHeaderName ext n")
    case True
    then obtain c' where v: "v = GoString c'"
      and same: "claimHeaderName ext m = claimHeaderName ext n" by blast
    have "(m, GoString c') \<in> set (cs @ [x])" using x v by simp
    moreover have "map_of (setClaimHeaders ext (cs @ [x]) h) (claimHeaderName ext n) = Some [c']"
      using x v same by (simp add: setClaimHeaders_snoc map_of_Header_Set claimHeaderName_def)
    ultimately show ?thesis using same by blast
  next
    case False
    with snoc.prems x have "(n, GoString c) \<in> set cs" by auto
    from snoc.IH [OF this] obtain n' c' where
      mem: "(n', GoString c') \<in> set cs"
      and same: "claimHeaderName ext n' = claimHeaderName ext n"
      and val: "map_of (setClaimHeaders ext cs h) (claimHeaderName ext n) = Some [c']" by blast
    have "map_of (setClaimHeaders ext (cs @ [x]) h) (claimHeaderName ext n) = Some [c']"
      using False x val
      by (cases v) (auto simp: setClaimHeaders_snoc map_of_Header_Set claimHeaderName_def)
    moreover have "(n', GoString c') \<in> set (cs @ [x])" using mem by simp
    ultimately show ?thesis using same by blast
  qed
qed

lemma setClaimHeaders_lookup:
  assumes d: "distinct (map (\<lambda>(n, c). claimHeaderName ext n) (stringClaims cs))"
    and i: "(n, GoString c) \<in> set cs"
  shows "map_of (setClaimHeaders ext cs h) (claimHeaderName ext n) = Some [c]"
proof -
  from setClaimHeaders_some [OF i] obtain n' c' where
    a: "(n', GoString c') \<in> set cs" and b: "claimHeaderName ext n' = claimHeaderName ext n"
    and c: "map_of (setClaimHeaders ext cs h) (claimHeaderName ext n) = Some [c']" by blast
  from d have inj: "inj_on (\<lambda>(n, c). claimHeaderName ext n) (set (stringClaims cs))"
    by (simp add: distinct_map)
  have m1: "(n, c) \<in> set (stringClaims cs)" and m2: "(n', c') \<in> set (stringClaims cs)"
    using i a by (simp_all add: in_stringClaims)
  have eq: "(\<lambda>(n, c). claimHeaderName ext n) (n, c) = (\<lambda>(n, c). claimHeaderName ext n) (n', c')"
    using b by simp
  have "(n, c) = (n', c')" by (rule inj_onD [OF inj eq m1 m2])
  with c show ?thesis by simp
qed

subsection \<open>A refused request is the request that came in\<close>

lemma DefaultIsAuthorized_False:
  "DefaultIsAuthorized ext m r = Inr (False, r') \<Longrightarrow> r' = r"
  by (auto simp: DefaultIsAuthorized_def split: list.splits sum.splits option.splits if_splits)

subsection \<open>The session lifetime\<close>

lemma Unix_add_cookieMaxAge: "Unix (t + cookieMaxAge) = Unix t + 3600"
proof -
  have "t + cookieMaxAge = t + 3600 * 1000000000" by (simp add: cookieMaxAge_def)
  then show ?thesis by (simp only: Unix_def div_mult_self1)
qed

lemma Seconds_cookieMaxAge: "Seconds cookieMaxAge = 3600"
  by (simp add: Seconds_def cookieMaxAge_def)

subsection \<open>Splitting a token into its segments\<close>

lemma Split_no_sep: "sep \<notin> set s \<Longrightarrow> Split s sep = [s]"
  by (induction s) auto

lemma Split_sep: "sep \<notin> set a \<Longrightarrow> Split (a @ sep # b) sep = a # Split b sep"
  by (induction a) auto

lemma Split_three:
  assumes "sep \<notin> set a" "sep \<notin> set b" "sep \<notin> set c"
  shows "Split (a @ sep # b @ sep # c) sep = [a, b, c]"
  using assms by (simp add: Split_sep Split_no_sep)

subsection \<open>Encoding, then decoding\<close>



subsection \<open>Running the instance\<close>

lemmas demo_simps = demo_def demoMiddleware_def demoRequest_def cookieName_def HasPrefix_def Parse_def
     secretKey_def demoSegments_def demoMethod_def demoCheck_def int64_def setClaimHeaders_def Header_Set_def demoUpper_def demoLower_def
     New_def SignedString_def SigningString_def

lemma demo_sessionClaims:
  "sessionClaims demo demoAttrs [] = [(''uid'', GoString ''alice@example.com''), (''exp'', GoNumber 4600)]"
  by (simp add: sessionClaims_def demoAttrs_def demo_def Unix_def cookieMaxAge_def)

section \<open>The claims\<close>

text \<open>
  C1. The claim: verification rejects every token whose signing algorithm is not the
  one fixed by the server (HS256). The code does not do this. Both calls of
  \<^verbatim>\<open>jwt.Parse\<close> (the session cookie in \<^verbatim>\<open>DefaultIsAuthorized\<close>, the relay state in
  \<^verbatim>\<open>DefaultAuthorizeFunc\<close>) pass a key callback that returns the secret whatever the
  token is and never reads the token's method, while both places that sign fix
  \<^verbatim>\<open>jwt.GetSigningMethod("HS256")\<close>. So the method that verifies is the one the
  token's own header names: for every algorithm \<open>alg\<close> in the table of signing
  methods, a session cookie whose header names \<open>alg\<close>, whose signature that method
  accepts under the secret and which is not expired, is authorized and its claims become
  headers. On the instance \<open>alg\<close> is HS384, and a relay state signed the same way is
  accepted by the callback, which sets the cookie and redirects to the token's URI.
\<close>

theorem alg_from_token:
  assumes cookie: "readCookies ext (Header r) cookieName = (h @ ''.'' @ c @ ''.'' @ sig) # vs"
    and dots: "CHR ''.'' \<notin> set h" "CHR ''.'' \<notin> set c" "CHR ''.'' \<notin> set sig"
    and hd: "UnmarshalSegment ext h = Inr hdr"
    and alg: "map_of hdr ''alg'' = Some (GoString alg)"
    and meth: "GetSigningMethod ext alg = Some meth"
    and cd: "UnmarshalSegment ext c = Inr C"
    and key: "pem_Decode ext (Key (ServiceProvider m)) = Some S"
    and ver: "Verify meth (h @ ''.'' @ c) sig S"
    and notexpired: "\<forall>e. map_of C ''exp'' = Some (GoNumber e) \<longrightarrow> TimeFunc ext \<le> int64 e"
    and notearly: "\<forall>n. map_of C ''nbf'' = Some (GoNumber n) \<longrightarrow> int64 n \<le> TimeFunc ext"
    and clean: "\<not> list_ex (\<lambda>k. HasPrefix k ''X-Saml'') (map fst (Header r))"
  shows "DefaultIsAuthorized ext m r
           = Inr (True, r\<lparr>Header := setClaimHeaders ext C (Header r)\<rparr>)"
proof -
  have split: "Split (h @ ''.'' @ c @ ''.'' @ sig) CHR ''.'' = [h, c, sig]"
    using Split_three [OF dots] by simp
  have e: "(case map_of C ''exp'' of Some (GoNumber e) \<Rightarrow> TimeFunc ext > int64 e | _ \<Rightarrow> False) = False"
    using notexpired by (auto split: option.splits go_value.splits)
  have n: "(case map_of C ''nbf'' of Some (GoNumber n) \<Rightarrow> TimeFunc ext < int64 n | _ \<Rightarrow> False) = False"
    using notearly by (auto split: option.splits go_value.splits)
  have "\<exists>t. Parse ext (h @ ''.'' @ c @ ''.'' @ sig) (secretKey ext m) = Inr (Some t, None)
          \<and> Valid t \<and> Claims t = C"
    unfolding Parse_def split
    using hd cd alg meth key ver e n
    by (simp add: secretKey_def Let_def)
  then obtain t where "Parse ext (h @ ''.'' @ c @ ''.'' @ sig) (secretKey ext m) = Inr (Some t, None)"
    "Valid t" "Claims t = C" by blast
  with cookie clean show ?thesis
    by (simp add: DefaultIsAuthorized_def)
qed

theorem alg_from_token_witness:
  "''HS384'' \<noteq> ''HS256''
   \<and> DefaultIsAuthorized demo demoMiddleware
      (demoRequest ''/protected'' ''x=1''
         [(''Cookie'', [''token=h384.session.HS384-secret-h384session''])] [])
     = Inr (True, demoRequest ''/protected'' ''x=1''
         [(''Cookie'', [''token=h384.session.HS384-secret-h384session'']),
          (''X-Saml-Uid'', [''alice@example.com''])] [])
   \<and> DefaultAuthorizeFunc demo demoMiddleware
      (demoRequest ''/saml/acs'' [] [] [(''RelayState'', [''h384.relay.HS384-secret-h384relay''])]) demoAttrs
     = Inr [SetCookie (sessionCookie ''h256.session.HS256-secret-h256session''),
            Redirect ''/protected?x=1'' 302]"
proof -
  let ?r = "demoRequest ''/protected'' ''x=1''
         [(''Cookie'', [''token=h384.session.HS384-secret-h384session''])] []"
  let ?C = "[(''uid'', GoString ''alice@example.com''), (''exp'', GoNumber 4600)]"
  have cookie: "readCookies demo (Header ?r) cookieName
      = (''h384'' @ ''.'' @ ''session'' @ ''.'' @ ''HS384-secret-h384session'') # []"
    by (simp add: demo_def demoRequest_def cookieName_def HasPrefix_def)
  have dots: "CHR ''.'' \<notin> set ''h384''" "CHR ''.'' \<notin> set ''session''"
    "CHR ''.'' \<notin> set ''HS384-secret-h384session''" by simp_all
  have hd: "UnmarshalSegment demo ''h384'' = Inr [(''typ'', GoString ''JWT''), (''alg'', GoString ''HS384'')]"
    by (simp add: demo_def demoSegments_def)
  have alg: "map_of [(''typ'', GoString ''JWT''), (''alg'', GoString ''HS384'')] ''alg'' = Some (GoString ''HS384'')"
    by simp
  have meth: "GetSigningMethod demo ''HS384'' = Some (demoMethod ''HS384'')"
    by (simp add: demo_def)
  have cd: "UnmarshalSegment demo ''session'' = Inr ?C"
    by (simp add: demo_def demoSegments_def)
  have key: "pem_Decode demo (Key (ServiceProvider demoMiddleware)) = Some ''secret''"
    by (simp add: demo_def demoMiddleware_def HasPrefix_def)
  have ver: "Verify (demoMethod ''HS384'') (''h384'' @ ''.'' @ ''session'') ''HS384-secret-h384session'' ''secret''"
    by (simp add: demoMethod_def demoCheck_def)
  have ne: "\<forall>e. map_of ?C ''exp'' = Some (GoNumber e) \<longrightarrow> TimeFunc demo \<le> int64 e"
    by (simp add: demo_def int64_def)
  have nb: "\<forall>n. map_of ?C ''nbf'' = Some (GoNumber n) \<longrightarrow> int64 n \<le> TimeFunc demo"
    by simp
  have clean: "\<not> list_ex (\<lambda>k. HasPrefix k ''X-Saml'') (map fst (Header ?r))"
    by (simp add: demoRequest_def HasPrefix_def)
  have 1: "DefaultIsAuthorized demo demoMiddleware ?r
     = Inr (True, demoRequest ''/protected'' ''x=1''
         [(''Cookie'', [''token=h384.session.HS384-secret-h384session'']),
          (''X-Saml-Uid'', [''alice@example.com''])] [])"
    using alg_from_token [OF cookie dots hd alg meth cd key ver ne nb clean]
    by (simp add: demoRequest_def setClaimHeaders_def Header_Set_def demo_def demoUpper_def demoLower_def)
  have 2: "DefaultAuthorizeFunc demo demoMiddleware
      (demoRequest ''/saml/acs'' [] [] [(''RelayState'', [''h384.relay.HS384-secret-h384relay''])]) demoAttrs
     = Inr [SetCookie (sessionCookie ''h256.session.HS256-secret-h256session''),
            Redirect ''/protected?x=1'' 302]"
    by (simp add: DefaultAuthorizeFunc_def Get_def demo_simps
        sessionClaims_def demoAttrs_def Unix_def cookieMaxAge_def StatusFound_def)
  from 1 2 show ?thesis by simp
qed

text \<open>
  C2. The claim: a request with a header whose name starts with \<open>X-Saml\<close> makes
  \<^verbatim>\<open>DefaultIsAuthorized\<close> panic, also when the session cookie is absent or invalid
  (the function's own comment says: "This function will panic if you do"). The code
  returns false before it reaches the scan of the headers. Evaluated on the instance:
  with the header \<open>X-Saml-Uid\<close> and no cookie, and with that header and a cookie
  whose signature is forged, the result is false, not a panic, and the request is
  returned as it came.
\<close>

theorem header_guard_skipped:
  "DefaultIsAuthorized demo demoMiddleware
      (demoRequest ''/protected'' ''x=1'' [(''X-Saml-Uid'', [''mallory''])] [])
     = Inr (False, demoRequest ''/protected'' ''x=1'' [(''X-Saml-Uid'', [''mallory''])] [])
   \<and> DefaultIsAuthorized demo demoMiddleware
      (demoRequest ''/protected'' ''x=1''
         [(''Cookie'', [''token=h256.session.forged'']), (''X-Saml-Uid'', [''mallory''])] [])
     = Inr (False, demoRequest ''/protected'' ''x=1''
         [(''Cookie'', [''token=h256.session.forged'']), (''X-Saml-Uid'', [''mallory''])] [])"
  by (simp add: DefaultIsAuthorized_def demo_simps)

text \<open>
  C3. In \<^verbatim>\<open>DefaultAuthorizeFunc\<close>, a \<open>RelayState\<close> form value that is not empty
  and that \<^verbatim>\<open>jwt.Parse\<close> returns with an error, or returns not valid, gives exactly
  one effect on the response: \<^verbatim>\<open>http.Error\<close> with "Forbidden" and 403; there is no
  cookie and no redirect. When the form has no \<open>RelayState\<close> at all, the session
  cookie is set and the redirect goes to \<open>/\<close> (given a key that decodes and a token
  that signs), and whatever the function returns, a redirect in it goes to \<open>/\<close>.
\<close>

theorem relay_forbidden:
  "(\<forall>tok err. Get (Form r) ''RelayState'' \<noteq> []
       \<and> Parse ext (Get (Form r) ''RelayState'') (secretKey ext m) = Inr (tok, Some err)
     \<longrightarrow> DefaultAuthorizeFunc ext m r attrs = Inr [HttpError ''Forbidden'' 403])
   \<and> (\<forall>t. Get (Form r) ''RelayState'' \<noteq> []
       \<and> Parse ext (Get (Form r) ''RelayState'') (secretKey ext m) = Inr (Some t, None) \<and> \<not> Valid t
     \<longrightarrow> DefaultAuthorizeFunc ext m r attrs = Inr [HttpError ''Forbidden'' 403])
   \<and> (\<forall>hs t secret signed. map_of (Form r) ''RelayState'' = None
       \<and> GetSigningMethod ext ''HS256'' = Some hs
       \<and> New (Some hs) = Inr t
       \<and> pem_Decode ext (Key (ServiceProvider m)) = Some secret
       \<and> SignedString ext (t\<lparr>Claims := sessionClaims ext attrs (Claims t)\<rparr>) secret = Inr (Inr signed)
     \<longrightarrow> DefaultAuthorizeFunc ext m r attrs = Inr [SetCookie (sessionCookie signed), Redirect ''/'' 302])
   \<and> (\<forall>effs u c. map_of (Form r) ''RelayState'' = None
       \<and> DefaultAuthorizeFunc ext m r attrs = Inr effs \<and> Redirect u c \<in> set effs
     \<longrightarrow> u = ''/'')"
  by (auto simp: DefaultAuthorizeFunc_def Let_def StatusText_def StatusForbidden_def StatusFound_def Get_def sessionCookie_def
       split: list.splits sum.splits option.splits if_splits go_value.splits)

theorem relay_forbidden_witness:
  "DefaultAuthorizeFunc demo demoMiddleware
      (demoRequest ''/saml/acs'' [] [] [(''RelayState'', [''h256.relay.forged''])]) demoAttrs
     = Inr [HttpError ''Forbidden'' 403]
   \<and> DefaultAuthorizeFunc demo demoMiddleware (demoRequest ''/saml/acs'' [] [] []) demoAttrs
     = Inr [SetCookie (sessionCookie ''h256.session.HS256-secret-h256session''), Redirect ''/'' 302]"
proof -
  let ?forged = "demoRequest ''/saml/acs'' [] [] [(''RelayState'', [''h256.relay.forged''])]"
  let ?plain = "demoRequest ''/saml/acs'' [] [] []"
  have g: "Get (Form ?forged) ''RelayState'' \<noteq> []"
    by (simp add: Get_def demoRequest_def)
  have p: "Parse demo (Get (Form ?forged) ''RelayState'') (secretKey demo demoMiddleware)
      = Inr (Some \<lparr>Raw = ''h256.relay.forged'', Method = Some (demoMethod ''HS256''),
               TokenHeader = [(''typ'', GoString ''JWT''), (''alg'', GoString ''HS256'')],
               Claims = [(''uri'', GoString ''/protected?x=1'')], Signature = [], Valid = False\<rparr>,
             Some (ValidationErrorFlags False False True))"
    by (simp add: Get_def demo_simps)
  have a: "map_of (Form ?plain) ''RelayState'' = None"
    by (simp add: demoRequest_def)
  have s: "SignedString demo
        (\<lparr>Raw = [], Method = Some (demoMethod ''HS256''),
          TokenHeader = [(''typ'', GoString ''JWT''), (''alg'', GoString (Alg (demoMethod ''HS256'')))],
          Claims = [], Signature = [], Valid = False\<rparr>
           \<lparr>Claims := sessionClaims demo demoAttrs []\<rparr>) ''secret''
       = Inr (Inr ''h256.session.HS256-secret-h256session'')"
    by (simp add: demo_sessionClaims) (simp add: demo_simps)
  from relay_forbidden [where ext = demo and m = demoMiddleware and r = ?forged and attrs = demoAttrs] g p
  have 1: "DefaultAuthorizeFunc demo demoMiddleware ?forged demoAttrs = Inr [HttpError ''Forbidden'' 403]"
    by blast
  have hs: "GetSigningMethod demo ''HS256'' = Some (demoMethod ''HS256'')" by (simp add: demo_def)
  have nw: "New (Some (demoMethod ''HS256'')) = Inr \<lparr>Raw = [], Method = Some (demoMethod ''HS256''),
          TokenHeader = [(''typ'', GoString ''JWT''), (''alg'', GoString (Alg (demoMethod ''HS256'')))],
          Claims = [], Signature = [], Valid = False\<rparr>" by (simp add: New_def)
  have k: "pem_Decode demo (Key (ServiceProvider demoMiddleware)) = Some ''secret''"
    by (simp add: demo_def demoMiddleware_def HasPrefix_def)
  from relay_forbidden [where ext = demo and m = demoMiddleware and r = ?plain and attrs = demoAttrs]
  have "\<forall>hs t secret signed. map_of (Form ?plain) ''RelayState'' = None
       \<and> GetSigningMethod demo ''HS256'' = Some hs
       \<and> New (Some hs) = Inr t
       \<and> pem_Decode demo (Key (ServiceProvider demoMiddleware)) = Some secret
       \<and> SignedString demo (t\<lparr>Claims := sessionClaims demo demoAttrs (Claims t)\<rparr>) secret = Inr (Inr signed)
     \<longrightarrow> DefaultAuthorizeFunc demo demoMiddleware ?plain demoAttrs = Inr [SetCookie (sessionCookie signed), Redirect ''/'' 302]"
    by blast
  from this a hs nw k s
  have 2: "DefaultAuthorizeFunc demo demoMiddleware ?plain demoAttrs
     = Inr [SetCookie (sessionCookie ''h256.session.HS256-secret-h256session''), Redirect ''/'' 302]"
    by (metis token.select_convs(4))
  from 1 2 show ?thesis by blast
qed

text \<open>
  C4. For a request that \<^verbatim>\<open>DefaultIsAuthorized\<close> refuses and whose path is not the
  path of the ACS URL, \<^verbatim>\<open>RequireAccountMiddleware\<close> answers with one effect: a
  redirect with status 302 to the URL the assertion verifier built from the relay state.
  The relay state is the signed string of an HS256 token whose only claim is
  \<open>uri\<close>, the string of the request's URL, signed with the bytes of the PEM block of
  the service provider's key. The hypotheses name what the sentence takes for granted:
  the key decodes, the token signs, the verifier builds a URL, the ACS URL parses. The
  example checks the instance at \<open>/protected?x=1\<close>, and that the relay state decodes
  to that URI.
\<close>

theorem redirect_to_idp:
  assumes default: "IsAuthorizedFunc m = None"
    and unauth: "DefaultIsAuthorized ext m r = Inr (False, r')"
    and hs: "GetSigningMethod ext ''HS256'' = Some hs"
    and key: "pem_Decode ext (Key (ServiceProvider m)) = Some secret"
    and sign: "SignedString ext
                 \<lparr>Raw = [], Method = Some hs,
                  TokenHeader = [(''typ'', GoString ''JWT''), (''alg'', GoString (Alg hs))],
                  Claims = [(''uri'', GoString (URL_String ext (URL r)))],
                  Signature = [], Valid = False\<rparr> secret = Inr (Inr signedRelayState)"
    and idp: "MakeRedirectAuthenticationRequest ext (ServiceProvider m) signedRelayState
                = Inr redirectURL"
    and acs: "url_Parse ext (AcsURL (ServiceProvider m)) = Some acsURL"
    and path: "Path (URL r) \<noteq> Path acsURL"
  shows "RequireAccountMiddleware ext m handler r
           = Inr [Redirect (URL_String ext redirectURL) 302]"
proof -
  have "r' = r" using unauth by (rule DefaultIsAuthorized_False)
  then show ?thesis
    using assms by (simp add: RequireAccountMiddleware_def New_def StatusFound_def)
qed

theorem redirect_to_idp_witness:
  "RequireAccountMiddleware demo demoMiddleware (\<lambda>r. Inr [])
      (demoRequest ''/protected'' ''x=1'' [] [])
     = Inr [Redirect ''https://idp.example.com/sso?RelayState=h256.relay.HS256-secret-h256relay'' 302]
   \<and> map_sum id (map_option (\<lambda>t. map_of (Claims t) ''uri'') \<circ> fst)
        (Parse demo ''h256.relay.HS256-secret-h256relay'' (secretKey demo demoMiddleware))
       = Inr (Some (Some (GoString ''/protected?x=1'')))"
proof -
  let ?r = "demoRequest ''/protected'' ''x=1'' [] []"
  have d: "IsAuthorizedFunc demoMiddleware = None" by (simp add: demoMiddleware_def)
  have u: "DefaultIsAuthorized demo demoMiddleware ?r = Inr (False, ?r)"
    by (simp add: DefaultIsAuthorized_def demo_simps)
  have hs: "GetSigningMethod demo ''HS256'' = Some (demoMethod ''HS256'')" by (simp add: demo_def)
  have k: "pem_Decode demo (Key (ServiceProvider demoMiddleware)) = Some ''secret''"
    by (simp add: demo_def demoMiddleware_def HasPrefix_def)
  have s: "SignedString demo
                 \<lparr>Raw = [], Method = Some (demoMethod ''HS256''),
                  TokenHeader = [(''typ'', GoString ''JWT''), (''alg'', GoString (Alg (demoMethod ''HS256'')))],
                  Claims = [(''uri'', GoString (URL_String demo (URL ?r)))],
                  Signature = [], Valid = False\<rparr> ''secret'' = Inr (Inr ''h256.relay.HS256-secret-h256relay'')"
    by (simp add: demo_simps)
  have i: "MakeRedirectAuthenticationRequest demo (ServiceProvider demoMiddleware) ''h256.relay.HS256-secret-h256relay''
      = Inr \<lparr>Scheme = ''https'', Host = ''idp.example.com'', Path = ''/sso'',
              RawQuery = ''RelayState=h256.relay.HS256-secret-h256relay'', Fragment = []\<rparr>"
    by (simp add: demo_def)
  have a: "url_Parse demo (AcsURL (ServiceProvider demoMiddleware))
      = Some \<lparr>Scheme = [], Host = [], Path = ''/saml/acs'', RawQuery = [], Fragment = []\<rparr>"
    by (simp add: demo_def demoMiddleware_def)
  have pa: "Path (URL ?r) \<noteq> Path \<lparr>Scheme = [], Host = [], Path = ''/saml/acs'', RawQuery = [], Fragment = []\<rparr>"
    by (simp add: demoRequest_def)
  from redirect_to_idp [OF d u hs k s i a pa, of "\<lambda>r. Inr []"]
  have 1: "RequireAccountMiddleware demo demoMiddleware (\<lambda>r. Inr []) ?r
     = Inr [Redirect ''https://idp.example.com/sso?RelayState=h256.relay.HS256-secret-h256relay'' 302]"
    by (simp add: demo_def)
  have 2: "map_sum id (map_option (\<lambda>t. map_of (Claims t) ''uri'') \<circ> fst)
        (Parse demo ''h256.relay.HS256-secret-h256relay'' (secretKey demo demoMiddleware))
       = Inr (Some (Some (GoString ''/protected?x=1'')))"
    by (simp add: demo_simps)
  from 1 2 show ?thesis by blast
qed

text \<open>
  C5. The claim: when the session cookie verifies, every string claim becomes the header
  \<open>X-Saml-\<close> with the claim's name, holding the claim's value, no other claim is
  copied, and the result is true. It fails at two inputs, both by the design of the
  code. A request that already has a header starting with \<open>X-Saml\<close> makes
  \<^verbatim>\<open>DefaultIsAuthorized\<close> panic, by its guard, though the cookie verifies. And two
  string claims whose header names have one canonical form (\<open>uid\<close> and \<open>Uid\<close>)
  share one header, which keeps the value of one of them. What holds: when the cookie
  verifies and no header of the request starts with \<open>X-Saml\<close>, the function returns
  true and changes only the headers of the request: every string claim's header,
  \<open>X-Saml-\<close> followed by the claim's name in canonical form, holds the single value
  of a string claim of that header name; it holds the claim's own value when no two
  string claims share a canonical header name; and every header that is not the header
  of a string claim is what it was, so a claim that is not a string (such as \<open>exp\<close>)
  is not copied.
\<close>

theorem claims_to_headers:
  assumes cookie: "readCookies ext (Header r) cookieName = v # vs"
    and parse: "Parse ext v (secretKey ext m) = Inr (Some t, None)"
    and valid: "Valid t"
    and clean: "\<not> list_ex (\<lambda>k. HasPrefix k ''X-Saml'') (map fst (Header r))"
  shows "\<exists>h'. DefaultIsAuthorized ext m r = Inr (True, r\<lparr>Header := h'\<rparr>)
     \<and> (\<forall>n c. (n, GoString c) \<in> set (Claims t) \<longrightarrow>
           (\<exists>n' c'. (n', GoString c') \<in> set (Claims t)
              \<and> claimHeaderName ext n' = claimHeaderName ext n
              \<and> map_of h' (claimHeaderName ext n) = Some [c']))
     \<and> (distinct (map (\<lambda>(n, c). claimHeaderName ext n) (stringClaims (Claims t))) \<longrightarrow>
          (\<forall>n c. (n, GoString c) \<in> set (Claims t) \<longrightarrow>
             map_of h' (claimHeaderName ext n) = Some [c]))
     \<and> (\<forall>k. (\<forall>n c. (n, GoString c) \<in> set (Claims t) \<longrightarrow> claimHeaderName ext n \<noteq> k) \<longrightarrow>
             map_of h' k = map_of (Header r) k)"
proof -
  let ?h = "setClaimHeaders ext (Claims t) (Header r)"
  have res: "DefaultIsAuthorized ext m r = Inr (True, r\<lparr>Header := ?h\<rparr>)"
    using assms by (simp add: DefaultIsAuthorized_def)
  show ?thesis
    using res setClaimHeaders_some [of _ _ "Claims t" ext "Header r"]
      setClaimHeaders_lookup [of ext "Claims t" _ _ "Header r"]
      setClaimHeaders_other [of "Claims t" ext _ "Header r"]
    by (intro exI [of _ ?h]) blast
qed

theorem claims_to_headers_witness:
  "\<exists>h'. DefaultIsAuthorized demo demoMiddleware
        (demoRequest ''/protected'' ''x=1''
           [(''Cookie'', [''token=h256.session.HS256-secret-h256session''])] [])
       = Inr (True, demoRequest ''/protected'' ''x=1'' h' [])
     \<and> map_of h' ''X-Saml-Uid'' = Some [''alice@example.com'']
     \<and> map_of h' ''X-Saml-Exp'' = None"
proof -
  let ?h = "[(''Cookie'', [''token=h256.session.HS256-secret-h256session''])]"
  let ?r = "demoRequest ''/protected'' ''x=1'' ?h []"
  let ?t = "\<lparr>Raw = ''h256.session.HS256-secret-h256session'', Method = Some (demoMethod ''HS256''),
               TokenHeader = [(''typ'', GoString ''JWT''), (''alg'', GoString ''HS256'')],
               Claims = [(''uid'', GoString ''alice@example.com''), (''exp'', GoNumber 4600)],
               Signature = [], Valid = True\<rparr>"
  have c: "readCookies demo (Header ?r) cookieName = [''h256.session.HS256-secret-h256session'']"
    by (simp add: demo_simps)
  have p: "Parse demo ''h256.session.HS256-secret-h256session'' (secretKey demo demoMiddleware) = Inr (Some ?t, None)"
    by (simp add: demo_simps)
  have v: "Valid ?t" by simp
  have cl: "\<not> list_ex (\<lambda>k. HasPrefix k ''X-Saml'') (map fst (Header ?r))"
    by (simp add: demoRequest_def HasPrefix_def)
  from claims_to_headers [OF c p v cl] obtain h' where
    res: "DefaultIsAuthorized demo demoMiddleware ?r = Inr (True, ?r\<lparr>Header := h'\<rparr>)"
    and set: "distinct (map (\<lambda>(n, c). claimHeaderName demo n) (stringClaims (Claims ?t))) \<longrightarrow>
          (\<forall>n c. (n, GoString c) \<in> set (Claims ?t) \<longrightarrow> map_of h' (claimHeaderName demo n) = Some [c])"
    and frame: "\<forall>k. (\<forall>n c. (n, GoString c) \<in> set (Claims ?t) \<longrightarrow> claimHeaderName demo n \<noteq> k) \<longrightarrow>
             map_of h' k = map_of (Header ?r) k"
    by blast
  have name: "claimHeaderName demo ''uid'' = ''X-Saml-Uid''"
    by (simp add: claimHeaderName_def demo_def demoUpper_def demoLower_def)
  from set name have 1: "map_of h' ''X-Saml-Uid'' = Some [''alice@example.com'']"
    by simp
  from frame [rule_format, of "''X-Saml-Exp''"] name have 2: "map_of h' ''X-Saml-Exp'' = None"
    by (simp add: demoRequest_def)
  have "?r\<lparr>Header := h'\<rparr> = demoRequest ''/protected'' ''x=1'' h' []"
    by (simp add: demoRequest_def)
  with res 1 2 show ?thesis by auto
qed

theorem claims_to_headers_counterexample:
  "DefaultIsAuthorized demo demoMiddleware
      (demoRequest ''/protected'' ''x=1''
         [(''Cookie'', [''token=h256.session.HS256-secret-h256session'']),
          (''X-Saml-Foo'', [''bar''])] [])
     = Inl (PanicString ''X-Saml-* headers should not exist when this function is called'')
   \<and> map_sum id (map_option (\<lambda>t. (Valid t, Claims t)) \<circ> fst)
        (Parse demo ''h256.twouids.HS256-secret-h256twouids'' (secretKey demo demoMiddleware))
       = Inr (Some (True, [(''uid'', GoString ''alice@example.com''),
                           (''Uid'', GoString ''mallory@evil.example'')]))
   \<and> DefaultIsAuthorized demo demoMiddleware
      (demoRequest ''/protected'' ''x=1''
         [(''Cookie'', [''token=h256.twouids.HS256-secret-h256twouids''])] [])
     = Inr (True, demoRequest ''/protected'' ''x=1''
         [(''Cookie'', [''token=h256.twouids.HS256-secret-h256twouids'']),
          (''X-Saml-Uid'', [''mallory@evil.example''])] [])"
  by (simp add: DefaultIsAuthorized_def demo_simps)




text \<open>
  C7. The claim: the session lifetime is a parameter of the middleware. In the code it
  is the constant \<^verbatim>\<open>cookieMaxAge = time.Hour\<close> (with the comment "must be
  configurable"): the cookie's \<open>MaxAge\<close> is 3600 and the \<open>exp\<close> claim is the
  clock plus 3600 seconds, whatever the middleware, the request and the attributes are,
  and every cookie \<^verbatim>\<open>DefaultAuthorizeFunc\<close> sets has \<open>MaxAge\<close> 3600.
\<close>

theorem lifetime_fixed:
  "Cookie_MaxAge (sessionCookie signedToken) = 3600
   \<and> map_of (sessionClaims ext attrs claims) ''exp''
       = Some (GoNumber (of_int (Unix (timeNow ext) + 3600)))
   \<and> (\<forall>effs c. DefaultAuthorizeFunc ext m r attrs = Inr effs \<and> SetCookie c \<in> set effs
         \<longrightarrow> Cookie_MaxAge c = 3600)"
proof -
  have a: "Cookie_MaxAge (sessionCookie s) = 3600" for s
    by (simp add: sessionCookie_def Seconds_cookieMaxAge)
  have b: "map_of (sessionClaims ext attrs claims) ''exp''
       = Some (GoNumber (of_int (Unix (timeNow ext) + 3600)))"
    by (simp add: sessionClaims_def update_conv' Unix_add_cookieMaxAge)
  have c: "\<forall>effs c. DefaultAuthorizeFunc ext m r attrs = Inr effs \<and> SetCookie c \<in> set effs
         \<longrightarrow> Cookie_MaxAge c = 3600"
    by (auto simp: DefaultAuthorizeFunc_def Let_def a
          split: list.splits sum.splits option.splits if_splits go_value.splits)
  from a b c show ?thesis by blast
qed

theorem lifetime_fixed_witness:
  "DefaultAuthorizeFunc demo demoMiddleware (demoRequest ''/saml/acs'' [] [] []) demoAttrs
     = Inr [SetCookie (sessionCookie ''h256.session.HS256-secret-h256session''), Redirect ''/'' 302]
   \<and> Cookie_MaxAge (sessionCookie ''h256.session.HS256-secret-h256session'') = 3600
   \<and> map_of (sessionClaims demo demoAttrs []) ''exp'' = Some (GoNumber 4600)"
proof -
  have r: "DefaultAuthorizeFunc demo demoMiddleware (demoRequest ''/saml/acs'' [] [] []) demoAttrs
     = Inr [SetCookie (sessionCookie ''h256.session.HS256-secret-h256session''), Redirect ''/'' 302]"
    by (simp add: DefaultAuthorizeFunc_def Get_def demo_simps
        sessionClaims_def demoAttrs_def Unix_def cookieMaxAge_def StatusFound_def)
  from lifetime_fixed [of "''h256.session.HS256-secret-h256session''" demo demoAttrs "[]"
      demoMiddleware "demoRequest ''/saml/acs'' [] [] []"] r
  show ?thesis by (simp add: demo_def Unix_def)
qed




text \<open>
  C9. \<^verbatim>\<open>DefaultIsAuthorized\<close> returns false when there is no session cookie and
  when \<^verbatim>\<open>jwt.Parse\<close> returns an error (a bad signature, an expired token), and
  whenever it returns false the request it returns is the request it was given: no
  header is added.
\<close>

theorem DefaultIsAuthorized_false_unchanged:
  "(readCookies ext (Header r) cookieName = [] \<longrightarrow> DefaultIsAuthorized ext m r = Inr (False, r))
   \<and> (\<forall>v vs tok err. readCookies ext (Header r) cookieName = v # vs
          \<and> Parse ext v (secretKey ext m) = Inr (tok, Some err)
        \<longrightarrow> DefaultIsAuthorized ext m r = Inr (False, r))
   \<and> (\<forall>r'. DefaultIsAuthorized ext m r = Inr (False, r') \<longrightarrow> r' = r)"
  by (auto simp: DefaultIsAuthorized_def split: list.splits sum.splits option.splits if_splits)

theorem DefaultIsAuthorized_false_unchanged_witness: "readCookies demo (Header (demoRequest ''/protected'' ''x=1'' [] [])) cookieName = []
   \<and> DefaultIsAuthorized demo demoMiddleware (demoRequest ''/protected'' ''x=1'' [] []) = Inr (False, demoRequest ''/protected'' ''x=1'' [] [])"
  using DefaultIsAuthorized_false_unchanged [of demo "demoRequest ''/protected'' ''x=1'' [] []" demoMiddleware]
  by (simp add: demo_def demoRequest_def)

text \<open>
  C10. In \<^verbatim>\<open>DefaultAuthorizeFunc\<close>, a \<open>RelayState\<close> that verifies and whose claim
  set has no \<open>uri\<close>, or a \<open>uri\<close> that is not a string, makes the type assertion
  \<^verbatim>\<open>relayState.Claims["uri"].(string)\<close> panic: there is no 403 and no redirect.
\<close>

theorem relay_uri_panics:
  assumes "Get (Form r) ''RelayState'' \<noteq> []"
    and "Parse ext (Get (Form r) ''RelayState'') (secretKey ext m) = Inr (Some t, None)"
    and "Valid t"
    and "\<forall>s. map_of (Claims t) ''uri'' \<noteq> Some (GoString s)"
  shows "DefaultAuthorizeFunc ext m r attrs = Inl TypeAssertion"
  using assms
  by (auto simp: DefaultAuthorizeFunc_def Let_def split: list.splits sum.splits option.splits if_splits go_value.splits)

theorem relay_uri_panics_witness:
  "DefaultAuthorizeFunc demo demoMiddleware
      (demoRequest ''/saml/acs'' [] [] [(''RelayState'', [''h256.nouri.HS256-secret-h256nouri''])]) demoAttrs
     = Inl TypeAssertion"
proof -
  let ?r = "demoRequest ''/saml/acs'' [] [] [(''RelayState'', [''h256.nouri.HS256-secret-h256nouri''])]"
  let ?t = "\<lparr>Raw = ''h256.nouri.HS256-secret-h256nouri'', Method = Some (demoMethod ''HS256''),
               TokenHeader = [(''typ'', GoString ''JWT''), (''alg'', GoString ''HS256'')],
               Claims = [(''sub'', GoString ''alice'')], Signature = [], Valid = True\<rparr>"
  have g: "Get (Form ?r) ''RelayState'' \<noteq> []"
    by (simp add: Get_def demoRequest_def)
  have p: "Parse demo (Get (Form ?r) ''RelayState'') (secretKey demo demoMiddleware) = Inr (Some ?t, None)"
    by (simp add: Get_def demo_simps)
  have v: "Valid ?t" by simp
  have u: "\<forall>s. map_of (Claims ?t) ''uri'' \<noteq> Some (GoString s)" by simp
  from relay_uri_panics [OF g p v u] show ?thesis .
qed

end
